theory Spec2Isabelle
  imports Complex_Main
begin

section \<open>The Bernoulli likelihood of GPy (GPy/likelihoods/bernoulli.py)\<close>

text \<open>
  A shallow embedding of the class \<^verbatim>\<open>Bernoulli\<close>. Every method becomes a function
  that takes what the method reads (the link function of the instance, numpy's
  floating-point error settings, the arrays) and returns what it leaves behind: an
  exception is the \<open>Inl\<close> of a sum type, a returned value the \<open>Inr\<close>.

  Floating-point numbers are modelled by exact reals extended with the two infinities
  and not-a-number. Rounding, overflow, underflow and the sign of zero are not part of
  the model.
\<close>

subsection \<open>Exceptions\<close>

datatype error =
    ValueError string
  | NotImplementedError
  | AssertionError string
  | NameError string
  | AttributeError string
  | IndexError
  | FloatingPointError
  | OutsideModel

text \<open>
  \<open>OutsideModel\<close> is not a Python exception. It marks the scalar inputs of
  \<^verbatim>\<open>moments_match_ep\<close> and \<^verbatim>\<open>predictive_mean\<close> at which the source divides by zero or
  takes the square root of a negative number: there numpy yields nan or inf and Python
  floats raise, and an exact real has no value to stand for either.
\<close>

subsection \<open>Floating-point values and numpy's error settings\<close>

datatype npfloat = Fin real | PInf | NInf | NaN

datatype fperr = DivideByZero | Invalid

datatype err_mode = Ignore | Warn | Raise | Call | Print | Log

record errstate =
  divide :: err_mode
  over :: err_mode
  under :: err_mode
  invalid :: err_mode

text \<open>
  \<^verbatim>\<open>np.seterr(divide='ignore')\<close> sets one category and returns the settings that were in
  force; \<^verbatim>\<open>np.seterr(**state)\<close> puts all four categories back.
\<close>

definition seterr_divide :: "errstate \<Rightarrow> err_mode \<Rightarrow> errstate \<times> errstate" where
  "seterr_divide st m = (st\<lparr>divide := m\<rparr>, st)"

definition seterr_all :: "errstate \<Rightarrow> errstate \<Rightarrow> errstate" where
  "seterr_all st saved = saved"

text \<open>numpy's error settings at start-up.\<close>

definition default_errstate :: errstate where
  "default_errstate = \<lparr>divide = Warn, over = Warn, under = Ignore, invalid = Warn\<rparr>"

text \<open>
  A floating-point condition raised by an elementwise operation becomes a
  \<^verbatim>\<open>FloatingPointError\<close> exactly when its category is set to \<^verbatim>\<open>'raise'\<close>; the other modes
  (ignore, warn, print, log, call) let the computation go on.
\<close>

fun trips :: "errstate \<Rightarrow> fperr option \<Rightarrow> bool" where
  "trips st None = False"
| "trips st (Some DivideByZero) = (divide st = Raise)"
| "trips st (Some Invalid) = (invalid st = Raise)"

definition ufunc :: "errstate \<Rightarrow> ('a \<Rightarrow> npfloat \<times> fperr option) \<Rightarrow> 'a list \<Rightarrow> error + npfloat list" where
  "ufunc st f xs =
     (if list_ex (\<lambda>x. trips st (snd (f x))) xs then Inl FloatingPointError
      else Inr (map (\<lambda>x. fst (f x)) xs))"

text \<open>\<^verbatim>\<open>np.log\<close> of a finite number: log 0 is -inf (divide by zero), log of a negative number is nan (invalid).\<close>

definition np_log :: "real \<Rightarrow> npfloat \<times> fperr option" where
  "np_log x =
     (if 0 < x then (Fin (ln x), None)
      else if x = 0 then (NInf, Some DivideByZero)
      else (NaN, Some Invalid))"

text \<open>The quotient \<^verbatim>\<open>c / x\<close> of two finite numbers.\<close>

definition np_div :: "real \<Rightarrow> real \<Rightarrow> npfloat \<times> fperr option" where
  "np_div c x =
     (if x \<noteq> 0 then (Fin (c / x), None)
      else if 0 < c then (PInf, Some DivideByZero)
      else if c < 0 then (NInf, Some DivideByZero)
      else (NaN, Some Invalid))"

fun np_add :: "npfloat \<Rightarrow> npfloat \<Rightarrow> npfloat \<times> fperr option" where
  "np_add NaN _ = (NaN, None)"
| "np_add _ NaN = (NaN, None)"
| "np_add (Fin a) (Fin b) = (Fin (a + b), None)"
| "np_add PInf NInf = (NaN, Some Invalid)"
| "np_add NInf PInf = (NaN, Some Invalid)"
| "np_add PInf _ = (PInf, None)"
| "np_add _ PInf = (PInf, None)"
| "np_add NInf _ = (NInf, None)"
| "np_add _ NInf = (NInf, None)"

text \<open>\<^verbatim>\<open>np.sum\<close>: the elements are added from left to right, starting from 0.\<close>

fun np_sum_from :: "errstate \<Rightarrow> npfloat \<Rightarrow> npfloat list \<Rightarrow> error + npfloat" where
  "np_sum_from st acc [] = Inr acc"
| "np_sum_from st acc (x # xs) =
     (case np_add acc x of
        (v, fl) \<Rightarrow> if trips st fl then Inl FloatingPointError else np_sum_from st v xs)"

definition np_sum :: "errstate \<Rightarrow> npfloat list \<Rightarrow> error + npfloat" where
  "np_sum st xs = np_sum_from st (Fin 0) xs"

fun np_exp :: "npfloat \<Rightarrow> npfloat" where
  "np_exp (Fin r) = Fin (exp r)"
| "np_exp PInf = PInf"
| "np_exp NInf = Fin 0"
| "np_exp NaN = NaN"

subsection \<open>Arrays\<close>

text \<open>
  An \<^verbatim>\<open>ndarray\<close> is its shape and its elements in row-major order (what \<^verbatim>\<open>flatten()\<close>
  returns). A scalar is the array of shape \<open>[]\<close> with one element.
\<close>

record 'a ndarray =
  shape :: "nat list"
  data :: "'a list"

definition wf_array :: "'a ndarray \<Rightarrow> bool" where
  "wf_array a = (length (data a) = prod_list (shape a))"

text \<open>\<^verbatim>\<open>np.atleast_1d(a).shape\<close>: a scalar becomes an array of one element.\<close>

definition atleast_1d_shape :: "nat list \<Rightarrow> nat list" where
  "atleast_1d_shape s = (if s = [] then [1] else s)"

text \<open>
  \<^verbatim>\<open>np.where(c, a, b)\<close> on operands that passed the shape assertion of the methods below:
  their shapes are equal once scalars are promoted, so broadcasting only ever stretches
  a shape \<open>[]\<close> to the shape \<open>[1]\<close>, every operand has the same number of elements, and
  the selection runs over them in step.
\<close>

definition np_where :: "bool list \<Rightarrow> 'a list \<Rightarrow> 'a list \<Rightarrow> 'a list" where
  "np_where c a b = map (\<lambda>(ci, ai, bi). if ci then ai else bi) (zip c (zip a b))"

definition broadcast_shape :: "nat list \<Rightarrow> nat list \<Rightarrow> nat list" where
  "broadcast_shape s t = (if s = [] then t else s)"

subsection \<open>The link function and the module's names\<close>

text \<open>
  The methods dispatch on the class of \<^verbatim>\<open>self.gp_link\<close> with \<^verbatim>\<open>isinstance\<close>. The module
  \<^verbatim>\<open>link_functions\<close> is a separate module, so an instance of any other
  link class is represented by the one thing the code reads from it: its attribute
  \<^verbatim>\<open>__name__\<close>, \<open>None\<close> when the instance has no such attribute (instances of ordinary
  Python classes have none; classes, functions and modules do).
\<close>

datatype link = Probit | Heaviside | Other "string option"

text \<open>
  The global names of the module, as its import statements and its class statement bind
  them. Reading any other global name raises \<^verbatim>\<open>NameError\<close>.
\<close>

definition module_globals :: "string list" where
  "module_globals = [''np'', ''std_norm_pdf'', ''std_norm_cdf'', ''link_functions'',
     ''Likelihood'', ''Bernoulli'']"

definition load_global :: "string \<Rightarrow> error + unit" where
  "load_global name = (if name \<in> set module_globals then Inr () else Inl (NameError name))"

subsection \<open>The standard normal distribution\<close>

text \<open>
  Modelled from the spec: \<^verbatim>\<open>std_norm_pdf\<close> and \<^verbatim>\<open>std_norm_cdf\<close> of
  \<^verbatim>\<open>util.univariate_Gaussian\<close> are defined outside this module; the spec names them
  the standard normal density and the standard normal distribution function. The
  distribution function is written with the error function, and the error function with
  its power series \<open>erf x = 2 / sqrt pi * (x - x^3 / 3 + x^5 / 10 - x^7 / 42 + \<dots>)\<close>.
\<close>

definition erf_series :: "real \<Rightarrow> real" where
  "erf_series x =
     2 / sqrt pi * (\<Sum>n. (- 1) ^ n * x ^ (2 * n + 1) / (fact n * real (2 * n + 1)))"

text \<open>
  Modelled from the spec: \<^verbatim>\<open>std_norm_cdf\<close>, the standard normal distribution function
  \<open>\<Phi>\<close>, as \<open>(1 + erf (x / sqrt 2)) / 2\<close>.
\<close>

definition std_norm_cdf :: "real \<Rightarrow> real" where
  "std_norm_cdf x = (1 + erf_series (x / sqrt 2)) / 2"

text \<open>
  Modelled from the spec: \<^verbatim>\<open>std_norm_pdf\<close>, the standard normal density \<open>\<phi>\<close>.
\<close>

definition std_norm_pdf :: "real \<Rightarrow> real" where
  "std_norm_pdf x = exp (- (x ^ 2) / 2) / sqrt (2 * pi)"

subsection \<open>Prediction\<close>

text \<open>
  \<^verbatim>\<open>predictive_mean\<close> calls \<^verbatim>\<open>stats.norm.cdf\<close>: the name \<^verbatim>\<open>stats\<close> is looked up among the
  module's globals before the argument is evaluated. \<^verbatim>\<open>stats.norm.cdf\<close> of scipy is the
  standard normal distribution function.
\<close>

definition predictive_mean :: "link \<Rightarrow> real \<Rightarrow> real \<Rightarrow> error + real" where
  "predictive_mean gp_link mu variance =
     (case gp_link of
        Probit \<Rightarrow>
          (case load_global ''stats'' of
             Inl e \<Rightarrow> Inl e
           | Inr _ \<Rightarrow> if 1 + variance \<le> 0 then Inl OutsideModel
                      else Inr (std_norm_cdf (mu / sqrt (1 + variance))))
      | Heaviside \<Rightarrow>
          (case load_global ''stats'' of
             Inl e \<Rightarrow> Inl e
           | Inr _ \<Rightarrow> if variance \<le> 0 then Inl OutsideModel
                      else Inr (std_norm_cdf (mu / sqrt variance)))
      | Other _ \<Rightarrow> Inl NotImplementedError)"

definition predictive_variance :: "link \<Rightarrow> 'a \<Rightarrow> 'b \<Rightarrow> 'c \<Rightarrow> npfloat" where
  "predictive_variance gp_link mu variance pred_mean =
     (case gp_link of Heaviside \<Rightarrow> Fin 0 | _ \<Rightarrow> NaN)"

subsection \<open>Moment matching for EP\<close>

text \<open>
  \<^verbatim>\<open>moments_match_ep\<close>: the observation is checked first, then the link is dispatched
  on. The closed forms are evaluated in exact real arithmetic where every divisor is
  non-zero and every square root is of a positive number. In the last branch the
  argument of \<^verbatim>\<open>ValueError\<close> is evaluated first, and it reads \<^verbatim>\<open>self.gp_link.__name__\<close>.
\<close>

definition moments_match_ep :: "link \<Rightarrow> real \<Rightarrow> real \<Rightarrow> real \<Rightarrow> error + real \<times> real \<times> real" where
  "moments_match_ep gp_link data_i tau_i v_i =
     (case (if data_i = 1 then Inr 1
            else if data_i = 0 then Inr (- 1)
            else Inl (ValueError ''bad value for Bernouilli observation (0, 1)'')) of
        Inl e \<Rightarrow> Inl e
      | Inr sign \<Rightarrow>
          (case gp_link of
             Probit \<Rightarrow>
               if tau_i ^ 2 + tau_i \<le> 0 then Inl OutsideModel
               else
                 let z = sign * v_i / sqrt (tau_i ^ 2 + tau_i);
                     Z_hat = std_norm_cdf z;
                     phi = std_norm_pdf z
                 in if Z_hat = 0 then Inl OutsideModel
                    else
                      let mu_hat = v_i / tau_i + sign * phi / (Z_hat * sqrt (tau_i ^ 2 + tau_i));
                          sigma2_hat =
                            1 / tau_i - (phi / ((tau_i ^ 2 + tau_i) * Z_hat)) * (z + phi / Z_hat)
                      in Inr (Z_hat, mu_hat, sigma2_hat)
           | Heaviside \<Rightarrow>
               if tau_i \<le> 0 then Inl OutsideModel
               else
                 let a = sign * v_i / sqrt tau_i;
                     Z_hat = std_norm_cdf a;
                     N = std_norm_pdf a
                 in if Z_hat = 0 then Inl OutsideModel
                    else
                      let mu_hat = v_i / tau_i + sign * N / Z_hat / sqrt tau_i;
                          sigma2_hat = (1 - a * N / Z_hat - (N / Z_hat) ^ 2) / tau_i
                      in Inr (Z_hat, mu_hat, sigma2_hat)
           | Other name \<Rightarrow>
               (case name of
                  None \<Rightarrow> Inl (AttributeError ''__name__'')
                | Some n \<Rightarrow>
                    Inl (ValueError (''Exact moment matching not available for link '' @ n)))))"

subsection \<open>Likelihood, log-likelihood and derivatives\<close>

text \<open>
  Every method below starts with
  \<^verbatim>\<open>assert np.atleast_1d(link_f).shape == np.atleast_1d(y).shape\<close>.
\<close>

definition shapes_agree :: "'a ndarray \<Rightarrow> 'b ndarray \<Rightarrow> bool" where
  "shapes_agree link_f y = (atleast_1d_shape (shape link_f) = atleast_1d_shape (shape y))"

text \<open>
  \<^verbatim>\<open>pdf_link\<close>: \<^verbatim>\<open>np.where(y, link_f, 1.-link_f)\<close> selects by the truth value of \<open>y\<close>
  (anything but 0 is true); the logarithm is taken under the caller's error settings.
\<close>

definition pdf_link :: "errstate \<Rightarrow> real ndarray \<Rightarrow> real ndarray \<Rightarrow> errstate \<times> (error + npfloat)" where
  "pdf_link st link_f y =
     (if \<not> shapes_agree link_f y then (st, Inl (AssertionError []))
      else
        let objective = np_where (map (\<lambda>v. v \<noteq> 0) (data y)) (data link_f)
                          (map (\<lambda>x. 1 - x) (data link_f))
        in case ufunc st np_log objective of
             Inl e \<Rightarrow> (st, Inl e)
           | Inr logs \<Rightarrow>
               (case np_sum st logs of
                  Inl e \<Rightarrow> (st, Inl e)
                | Inr s \<Rightarrow> (st, Inr (np_exp s))))"

text \<open>
  \<^verbatim>\<open>logpdf_link\<close>: \<^verbatim>\<open>np.where(y==1, np.log(link_f), np.log(1-link_f))\<close> computes both
  logarithms on the whole array, between the two calls of \<^verbatim>\<open>np.seterr\<close>, and selects by
  \<open>y = 1\<close>; the sum is taken after the settings are put back. An exception between the two
  calls leaves through neither of them.
\<close>

definition logpdf_link :: "errstate \<Rightarrow> real ndarray \<Rightarrow> real ndarray \<Rightarrow> errstate \<times> (error + npfloat)" where
  "logpdf_link st link_f y =
     (if \<not> shapes_agree link_f y then (st, Inl (AssertionError []))
      else
        case seterr_divide st Ignore of (st1, state) \<Rightarrow>
        (case ufunc st1 np_log (data link_f) of
          Inl e \<Rightarrow> (st1, Inl e)
        | Inr a \<Rightarrow>
            (case ufunc st1 np_log (map (\<lambda>x. 1 - x) (data link_f)) of
               Inl e \<Rightarrow> (st1, Inl e)
             | Inr b \<Rightarrow>
                 let objective = np_where (map (\<lambda>v. v = 1) (data y)) a b;
                     st2 = seterr_all st1 state
                 in (st2, np_sum st2 objective))))"

definition dlogpdf_dlink :: "errstate \<Rightarrow> real ndarray \<Rightarrow> real ndarray \<Rightarrow> errstate \<times> (error + npfloat ndarray)" where
  "dlogpdf_dlink st link_f y =
     (if \<not> shapes_agree link_f y then (st, Inl (AssertionError []))
      else
        case seterr_divide st Ignore of (st1, state) \<Rightarrow>
        (case ufunc st1 (np_div 1) (data link_f) of
          Inl e \<Rightarrow> (st1, Inl e)
        | Inr a \<Rightarrow>
            (case ufunc st1 (np_div (- 1)) (map (\<lambda>x. 1 - x) (data link_f)) of
               Inl e \<Rightarrow> (st1, Inl e)
             | Inr b \<Rightarrow>
                 let grad = \<lparr>shape = broadcast_shape (shape y) (shape link_f),
                             data = np_where (map (\<lambda>v. v \<noteq> 0) (data y)) a b\<rparr>;
                     st2 = seterr_all st1 state
                 in (st2, Inr grad))))"

definition d2logpdf_dlink2 :: "errstate \<Rightarrow> real ndarray \<Rightarrow> real ndarray \<Rightarrow> errstate \<times> (error + npfloat ndarray)" where
  "d2logpdf_dlink2 st link_f y =
     (if \<not> shapes_agree link_f y then (st, Inl (AssertionError []))
      else
        case seterr_divide st Ignore of (st1, state) \<Rightarrow>
        (case ufunc st1 (np_div (- 1)) (map (\<lambda>x. x ^ 2) (data link_f)) of
          Inl e \<Rightarrow> (st1, Inl e)
        | Inr a \<Rightarrow>
            (case ufunc st1 (np_div (- 1)) (map (\<lambda>x. (1 - x) ^ 2) (data link_f)) of
               Inl e \<Rightarrow> (st1, Inl e)
             | Inr b \<Rightarrow>
                 let d2 = \<lparr>shape = broadcast_shape (shape y) (shape link_f),
                           data = np_where (map (\<lambda>v. v \<noteq> 0) (data y)) a b\<rparr>;
                     st2 = seterr_all st1 state
                 in (st2, Inr d2))))"

definition d3logpdf_dlink3 :: "errstate \<Rightarrow> real ndarray \<Rightarrow> real ndarray \<Rightarrow> errstate \<times> (error + npfloat ndarray)" where
  "d3logpdf_dlink3 st link_f y =
     (if \<not> shapes_agree link_f y then (st, Inl (AssertionError []))
      else
        case seterr_divide st Ignore of (st1, state) \<Rightarrow>
        (case ufunc st1 (np_div 2) (map (\<lambda>x. x ^ 3) (data link_f)) of
          Inl e \<Rightarrow> (st1, Inl e)
        | Inr a \<Rightarrow>
            (case ufunc st1 (np_div (- 2)) (map (\<lambda>x. (1 - x) ^ 3) (data link_f)) of
               Inl e \<Rightarrow> (st1, Inl e)
             | Inr b \<Rightarrow>
                 let d3 = \<lparr>shape = broadcast_shape (shape y) (shape link_f),
                           data = np_where (map (\<lambda>v. v \<noteq> 0) (data y)) a b\<rparr>;
                     st2 = seterr_all st1 state
                 in (st2, Inr d3))))"

subsection \<open>Label preprocessing\<close>





section \<open>Properties\<close>

subsection \<open>Prediction\<close>

text \<open>
  C7. \<^verbatim>\<open>predictive_variance\<close> returns exactly 0 with the Heaviside link and the
  not-a-number sentinel with every other link (Probit included); it returns a value and
  raises nothing, and the value does not depend on \<open>mu\<close>, \<open>variance\<close> or the predicted
  mean.
\<close>

theorem predictive_variance_by_link:
  "predictive_variance Heaviside mu variance pm = Fin 0
   \<and> predictive_variance Probit mu variance pm = NaN
   \<and> predictive_variance (Other nm) mu variance pm = NaN
   \<and> predictive_variance l mu variance pm = predictive_variance l mu' variance' pm'"
  by (simp add: predictive_variance_def split: link.split)

text \<open>
  C1. With the Probit link (and likewise the Heaviside link) \<^verbatim>\<open>predictive_mean\<close> does not
  return the value of the distribution function: the module never imports \<^verbatim>\<open>stats\<close>, so
  the call raises \<^verbatim>\<open>NameError\<close>. Here at \<open>mu = 0\<close>, \<open>variance = 1\<close>.
\<close>

theorem predictive_mean_probit_name_error:
  "predictive_mean Probit 0 1 = Inl (NameError ''stats'')
   \<and> predictive_mean Heaviside 0 1 = Inl (NameError ''stats'')"
  by (simp add: predictive_mean_def load_global_def module_globals_def)

subsection \<open>Moment matching\<close>

lemma std_norm_cdf_0: "std_norm_cdf 0 = 1 / 2"
  by (simp add: std_norm_cdf_def erf_series_def)

lemma std_norm_pdf_0: "std_norm_pdf 0 = 1 / sqrt (2 * pi)"
  by (simp add: std_norm_pdf_def)

lemma moments_match_ep_probit_value:
  "moments_match_ep Probit 1 1 0 = Inr (1 / 2, 1 / sqrt pi, 1 - 1 / pi)"
proof -
  have "moments_match_ep Probit 1 1 0 =
          Inr (1 / 2, 2 / (sqrt 2 * sqrt (2 * pi)), 1 - 2 / (sqrt (2 * pi) * sqrt (2 * pi)))"
    by (simp add: moments_match_ep_def Let_def std_norm_cdf_0 std_norm_pdf_0)
  moreover have "2 / (sqrt 2 * sqrt (2 * pi)) = 1 / sqrt pi"
  proof -
    have "sqrt 2 * sqrt (2 * pi) = (sqrt 2 * sqrt 2) * sqrt pi"
      by (simp add: real_sqrt_mult)
    also have "\<dots> = 2 * sqrt pi"
      by simp
    finally show ?thesis by simp
  qed
  moreover have "2 / (sqrt (2 * pi) * sqrt (2 * pi)) = 1 / pi"
    by simp
  ultimately show ?thesis by simp
qed

text \<open>
  The observation is validated before anything else: a label other than 0 or 1 raises
  the \<^verbatim>\<open>ValueError\<close> of the first test, whatever the link and the cavity parameters.
\<close>

lemma moments_match_ep_bad_label:
  "data_i \<noteq> 0 \<Longrightarrow> data_i \<noteq> 1 \<Longrightarrow>
   moments_match_ep gp_link data_i tau_i v_i =
     Inl (ValueError ''bad value for Bernouilli observation (0, 1)'')"
  by (simp add: moments_match_ep_def)

lemma moments_match_ep_other_named:
  "data_i = 0 \<or> data_i = 1 \<Longrightarrow>
   moments_match_ep (Other (Some n)) data_i tau_i v_i =
     Inl (ValueError (''Exact moment matching not available for link '' @ n))"
  by (auto simp add: moments_match_ep_def)

text \<open>
  C4. With a valid label and a link that is neither Probit nor Heaviside, the call does
  fail, but not with the error the code builds: the message of the \<^verbatim>\<open>ValueError\<close> reads
  \<^verbatim>\<open>self.gp_link.__name__\<close>, and on a link instance without that attribute the call
  raises \<^verbatim>\<open>AttributeError\<close>. Here at label 1, \<open>tau_i = 1\<close>, \<open>v_i = 0\<close>.
\<close>

theorem moments_match_ep_other_link_attribute_error:
  "moments_match_ep (Other None) 1 1 0 = Inl (AttributeError ''__name__'')"
  by (simp add: moments_match_ep_def)

text \<open>
  C6, as stated, fails: with the Probit link, label 1, \<open>tau_i = 1\<close> and \<open>v_i = 0\<close> the
  matched mean \<open>mu_hat\<close> is not 0.
\<close>

theorem moments_match_ep_probit_mu_hat_nonzero:
  "(case moments_match_ep Probit 1 1 0 of
      Inl e \<Rightarrow> False
    | Inr (Z_hat, mu_hat, sigma2_hat) \<Rightarrow> mu_hat \<noteq> 0)"
  by (simp add: moments_match_ep_probit_value)

text \<open>
  C6, amended. With the Probit link, \<^verbatim>\<open>moments_match_ep(1, tau_i=1.0, v_i=0.0)\<close> returns
  \<open>Z_hat = 1/2\<close>, \<open>mu_hat = 1 / sqrt pi\<close> and \<open>sigma2_hat = 1 - 1 / pi\<close>, which is
  strictly positive.
\<close>

theorem moments_match_ep_probit_fixed_point:
  "moments_match_ep Probit 1 1 0 = Inr (1 / 2, 1 / sqrt pi, 1 - 1 / pi)
   \<and> (0::real) < 1 - 1 / pi"
  using pi_ge_two by (simp add: moments_match_ep_probit_value field_simps)

subsection \<open>Elementwise operations on arrays\<close>

lemma ufunc_np_log_pos:
  "\<forall>x\<in>set xs. 0 < x \<Longrightarrow> ufunc st np_log xs = Inr (map (\<lambda>x. Fin (ln x)) xs)"
  by (simp add: ufunc_def list_ex_iff np_log_def)

lemma ufunc_np_div_nonzero:
  "\<forall>x\<in>set xs. x \<noteq> 0 \<Longrightarrow> ufunc st (np_div c) xs = Inr (map (\<lambda>x. Fin (c / x)) xs)"
  by (simp add: ufunc_def list_ex_iff np_div_def)

lemma ufunc_np_div_map:
  "\<forall>x\<in>set xs. g x \<noteq> 0 \<Longrightarrow>
   ufunc st (np_div c) (map g xs) = Inr (map (\<lambda>x. Fin (c / g x)) xs)"
  using ufunc_np_div_nonzero [of "map g xs" st c] by (simp add: comp_def)


lemma np_sum_from_Fin:
  "np_sum_from st (Fin a) (map Fin rs) = Inr (Fin (a + sum_list rs))"
  by (induction rs arbitrary: a) (simp_all add: add.assoc)

lemma np_sum_Fin: "np_sum st (map Fin rs) = Inr (Fin (sum_list rs))"
  by (simp add: np_sum_def np_sum_from_Fin)

lemma np_sum_Fin_comp: "np_sum st (map (Fin \<circ> f) xs) = Inr (Fin (sum_list (map f xs)))"
  using np_sum_Fin [of st "map f xs"] by simp

lemma np_where_same:
  "np_where (map p ys) (map f ls) (map g ls) =
   map (\<lambda>(v, x). if p v then f x else g x) (zip ys ls)"
proof (induction ys arbitrary: ls)
  case Nil
  show ?case by (simp add: np_where_def)
next
  case (Cons v vs)
  show ?case
  proof (cases ls)
    case Nil
    then show ?thesis by (simp add: np_where_def)
  next
    case (Cons x xs)
    with Cons.IH [of xs] show ?thesis by (simp add: np_where_def)
  qed
qed

lemma np_where_same_id:
  "np_where (map p ys) ls (map g ls) =
   map (\<lambda>(v, x). if p v then x else g x) (zip ys ls)"
  using np_where_same [of p ys "\<lambda>x. x" ls g] by simp

lemma shapes_agree_same: "shape a = shape b \<Longrightarrow> shapes_agree a b"
  by (simp add: shapes_agree_def)

lemma same_shape_broadcast:
  "shape link_f = shape y \<Longrightarrow> broadcast_shape (shape y) (shape link_f) = shape y"
  by (simp add: broadcast_shape_def)

subsection \<open>Likelihood and log-likelihood\<close>

text \<open>
  On link values strictly between 0 and 1 no logarithm raises a floating-point
  condition, so both methods return, whatever the labels and the error settings.
\<close>

lemma pdf_link_value:
  assumes "shapes_agree link_f y"
    and "\<forall>x\<in>set (data link_f). 0 < x \<and> x < 1"
  shows "pdf_link st link_f y =
    (st, Inr (Fin (exp (sum_list (map (\<lambda>(v, x). ln (if v \<noteq> 0 then x else 1 - x))
       (zip (data y) (data link_f)))))))"
proof -
  let ?obj = "map (\<lambda>(v, x). if v \<noteq> 0 then x else 1 - x) (zip (data y) (data link_f))"
  have pos: "\<forall>r\<in>set ?obj. 0 < r"
    using assms(2) by (auto dest!: set_zip_rightD)
  have "ufunc st np_log ?obj = Inr (map (\<lambda>x. Fin (ln x)) ?obj)"
    using pos by (rule ufunc_np_log_pos)
  also have "map (\<lambda>x. Fin (ln x)) ?obj =
     map Fin (map (\<lambda>(v, x). ln (if v \<noteq> 0 then x else 1 - x)) (zip (data y) (data link_f)))"
    by (simp add: split_def if_distrib)
  finally show ?thesis
    using assms(1) by (simp add: pdf_link_def np_where_same_id np_sum_Fin_comp)
qed

lemma logpdf_link_value:
  assumes "shapes_agree link_f y"
    and "\<forall>x\<in>set (data link_f). 0 < x \<and> x < 1"
  shows "logpdf_link st link_f y =
    (st, Inr (Fin (sum_list (map (\<lambda>(v, x). if v = 1 then ln x else ln (1 - x))
       (zip (data y) (data link_f))))))"
proof -
  have a: "ufunc (st\<lparr>divide := Ignore\<rparr>) np_log (data link_f)
      = Inr (map (\<lambda>x. Fin (ln x)) (data link_f))"
    using assms(2) by (simp add: ufunc_np_log_pos)
  have b: "ufunc (st\<lparr>divide := Ignore\<rparr>) np_log (map (\<lambda>x. 1 - x) (data link_f))
      = Inr (map (\<lambda>x. Fin (ln (1 - x))) (data link_f))"
    using assms(2) by (simp add: ufunc_np_log_pos comp_def)
  have c: "map (\<lambda>(v, x). if v = 1 then Fin (ln x) else Fin (ln (1 - x))) (zip (data y) (data link_f))
     = map Fin (map (\<lambda>(v, x). if v = 1 then ln x else ln (1 - x)) (zip (data y) (data link_f)))"
    by (simp add: split_def if_distrib)
  show ?thesis
    using assms(1)
    by (simp add: logpdf_link_def seterr_divide_def seterr_all_def a b np_where_same c
        np_sum_Fin_comp)
qed

text \<open>
  C2, as stated, fails. With the link value 1/4 and the label 2 the likelihood is 1/4
  and the exponential of the log-likelihood is 3/4: the likelihood reads the label as
  true, the log-likelihood compares it with 1. And with the label 1 and the link value
  0, under error settings that raise on a division by zero, the likelihood raises
  \<^verbatim>\<open>FloatingPointError\<close> (its logarithm is not shielded) while the log-likelihood
  returns -inf.
\<close>

theorem likelihood_not_exp_of_log_likelihood:
  "snd (pdf_link default_errstate \<lparr>shape = [1], data = [1 / 4]\<rparr> \<lparr>shape = [1], data = [2]\<rparr>)
     \<noteq> map_sum id np_exp
         (snd (logpdf_link default_errstate \<lparr>shape = [1], data = [1 / 4]\<rparr>
                 \<lparr>shape = [1], data = [2]\<rparr>))
   \<and> snd (pdf_link (default_errstate\<lparr>divide := Raise\<rparr>) \<lparr>shape = [1], data = [0]\<rparr>
            \<lparr>shape = [1], data = [1]\<rparr>)
     \<noteq> map_sum id np_exp
         (snd (logpdf_link (default_errstate\<lparr>divide := Raise\<rparr>) \<lparr>shape = [1], data = [0]\<rparr>
                 \<lparr>shape = [1], data = [1]\<rparr>))"
proof
  have "shapes_agree \<lparr>shape = [1], data = [1 / 4 :: real]\<rparr> \<lparr>shape = [1], data = [2 :: real]\<rparr>"
    by (simp add: shapes_agree_def)
  then show "snd (pdf_link default_errstate \<lparr>shape = [1], data = [1 / 4]\<rparr>
                    \<lparr>shape = [1], data = [2]\<rparr>)
     \<noteq> map_sum id np_exp
         (snd (logpdf_link default_errstate \<lparr>shape = [1], data = [1 / 4]\<rparr>
                 \<lparr>shape = [1], data = [2]\<rparr>))"
    by (simp add: pdf_link_value logpdf_link_value)
next
  show "snd (pdf_link (default_errstate\<lparr>divide := Raise\<rparr>) \<lparr>shape = [1], data = [0]\<rparr>
            \<lparr>shape = [1], data = [1]\<rparr>)
     \<noteq> map_sum id np_exp
         (snd (logpdf_link (default_errstate\<lparr>divide := Raise\<rparr>) \<lparr>shape = [1], data = [0]\<rparr>
                 \<lparr>shape = [1], data = [1]\<rparr>))"
    by (simp add: pdf_link_def logpdf_link_def shapes_agree_def np_where_def ufunc_def
        np_log_def seterr_divide_def seterr_all_def np_sum_def default_errstate_def)
qed

text \<open>
  C2, amended. For equally shaped arrays \<open>link_f\<close> and \<open>y\<close>, every label exactly 0 or 1
  and every link value strictly between 0 and 1, the log-likelihood returns a finite
  number and the likelihood returns its exponential, under any error settings.
\<close>

theorem likelihood_is_exp_of_log_likelihood:
  assumes "shape link_f = shape y" and "wf_array link_f" and "wf_array y"
    and "\<forall>v\<in>set (data y). v = 0 \<or> v = 1"
    and "\<forall>x\<in>set (data link_f). 0 < x \<and> x < 1"
  shows "(\<exists>l. logpdf_link st link_f y = (st, Inr (Fin l)))
     \<and> snd (pdf_link st link_f y) = map_sum id np_exp (snd (logpdf_link st link_f y))"
proof -
  have agree: "shapes_agree link_f y"
    using assms(1) by (rule shapes_agree_same)
  have eq: "map (\<lambda>(v, x). ln (if v \<noteq> 0 then x else 1 - x)) (zip (data y) (data link_f))
      = map (\<lambda>(v, x). if v = 1 then ln x else ln (1 - x)) (zip (data y) (data link_f))"
    using assms(4) by (auto dest: set_zip_leftD)
  show ?thesis
    by (simp add: pdf_link_value [OF agree assms(5)] logpdf_link_value [OF agree assms(5)] eq)
qed

theorem likelihood_is_exp_of_log_likelihood_witness:
  "(\<exists>l. logpdf_link default_errstate \<lparr>shape = [2], data = [1 / 4, 1 / 2]\<rparr>
            \<lparr>shape = [2], data = [1, 0]\<rparr> = (default_errstate, Inr (Fin l)))
   \<and> snd (pdf_link default_errstate \<lparr>shape = [2], data = [1 / 4, 1 / 2]\<rparr>
            \<lparr>shape = [2], data = [1, 0]\<rparr>)
     = map_sum id np_exp (snd (logpdf_link default_errstate
            \<lparr>shape = [2], data = [1 / 4, 1 / 2]\<rparr> \<lparr>shape = [2], data = [1, 0]\<rparr>))"
  by (rule likelihood_is_exp_of_log_likelihood) (simp_all add: wf_array_def)

text \<open>
  C9. Neither method validates the labels: on link values strictly between 0 and 1 both
  return for any labels. The likelihood selects \<open>link_f\<close> for every label other than 0,
  the log-likelihood selects \<open>log link_f\<close> only for a label equal to 1 and
  \<open>log (1 - link_f)\<close> for every other label. Hence there are a \<open>y\<close> holding a 2 and a
  matching \<open>link_f\<close> in (0,1) at which the likelihood is not the exponential of the
  log-likelihood.
\<close>

theorem labels_outside_01_classified_differently:
  "(shape link_f = shape y \<and> wf_array link_f \<and> wf_array y
      \<and> (\<forall>x\<in>set (data link_f). 0 < x \<and> x < 1) \<longrightarrow>
      pdf_link st link_f y =
        (st, Inr (Fin (exp (sum_list (map (\<lambda>(v, x). ln (if v \<noteq> 0 then x else 1 - x))
           (zip (data y) (data link_f)))))))
      \<and> logpdf_link st link_f y =
        (st, Inr (Fin (sum_list (map (\<lambda>(v, x). if v = 1 then ln x else ln (1 - x))
           (zip (data y) (data link_f)))))))
   \<and> (\<exists>l' y'. shape l' = shape y' \<and> wf_array l' \<and> wf_array y' \<and> 2 \<in> set (data y')
         \<and> (\<forall>x\<in>set (data l'). 0 < x \<and> x < 1)
         \<and> snd (pdf_link st l' y') \<noteq> map_sum id np_exp (snd (logpdf_link st l' y')))"
proof (intro conjI impI)
  assume h: "shape link_f = shape y \<and> wf_array link_f \<and> wf_array y
      \<and> (\<forall>x\<in>set (data link_f). 0 < x \<and> x < 1)"
  then have agree: "shapes_agree link_f y" and unit: "\<forall>x\<in>set (data link_f). 0 < x \<and> x < 1"
    by (simp_all add: shapes_agree_same)
  show "pdf_link st link_f y =
        (st, Inr (Fin (exp (sum_list (map (\<lambda>(v, x). ln (if v \<noteq> 0 then x else 1 - x))
           (zip (data y) (data link_f)))))))"
    using agree unit by (rule pdf_link_value)
  show "logpdf_link st link_f y =
        (st, Inr (Fin (sum_list (map (\<lambda>(v, x). if v = 1 then ln x else ln (1 - x))
           (zip (data y) (data link_f))))))"
    using agree unit by (rule logpdf_link_value)
next
  let ?l = "\<lparr>shape = [1], data = [1 / 4 :: real]\<rparr>"
  let ?y = "\<lparr>shape = [1], data = [2 :: real]\<rparr>"
  have agree: "shapes_agree ?l ?y"
    by (simp add: shapes_agree_def)
  have "snd (pdf_link st ?l ?y) \<noteq> map_sum id np_exp (snd (logpdf_link st ?l ?y))"
    using agree by (simp add: pdf_link_value logpdf_link_value)
  moreover have "shape ?l = shape ?y \<and> wf_array ?l \<and> wf_array ?y \<and> 2 \<in> set (data ?y)
         \<and> (\<forall>x\<in>set (data ?l). 0 < x \<and> x < 1)"
    by (simp add: wf_array_def)
  ultimately show "\<exists>l' y'. shape l' = shape y' \<and> wf_array l' \<and> wf_array y' \<and> 2 \<in> set (data y')
         \<and> (\<forall>x\<in>set (data l'). 0 < x \<and> x < 1)
         \<and> snd (pdf_link st l' y') \<noteq> map_sum id np_exp (snd (logpdf_link st l' y'))"
    by blast
qed

theorem labels_outside_01_classified_differently_witness:
  "pdf_link default_errstate \<lparr>shape = [2], data = [1 / 4, 1 / 2]\<rparr> \<lparr>shape = [2], data = [2, 0]\<rparr>
      = (default_errstate, Inr (Fin (1 / 8)))
   \<and> logpdf_link default_errstate \<lparr>shape = [2], data = [1 / 4, 1 / 2]\<rparr>
        \<lparr>shape = [2], data = [2, 0]\<rparr>
      = (default_errstate, Inr (Fin (ln (3 / 4) + ln (1 / 2))))"
  using labels_outside_01_classified_differently
    [of "\<lparr>shape = [2], data = [1 / 4, 1 / 2]\<rparr>" "\<lparr>shape = [2], data = [2, 0]\<rparr>" default_errstate]
  by (simp add: wf_array_def exp_add)

subsection \<open>Second derivative\<close>

text \<open>
  C10. For equally shaped arrays and link values strictly between 0 and 1,
  \<^verbatim>\<open>d2logpdf_dlink2\<close> returns an array of the shape of \<open>y\<close> whose every element is finite
  and strictly negative: \<open>- 1 / link_f\<^sup>2\<close> where the label is true, \<open>- 1 / (1 - link_f)\<^sup>2\<close>
  elsewhere.
\<close>

theorem d2logpdf_dlink2_negative:
  assumes "shape link_f = shape y" and "wf_array link_f" and "wf_array y"
    and "\<forall>x\<in>set (data link_f). 0 < x \<and> x < 1"
  shows "\<exists>h. d2logpdf_dlink2 st link_f y = (st, Inr \<lparr>shape = shape y, data = map Fin h\<rparr>)
     \<and> length h = length (data link_f)
     \<and> (\<forall>i<length h. h ! i < 0
          \<and> h ! i = (if data y ! i \<noteq> 0 then - 1 / (data link_f ! i) ^ 2
                     else - 1 / (1 - data link_f ! i) ^ 2))"
proof -
  let ?h = "map (\<lambda>(v, x). if v \<noteq> 0 then - 1 / x ^ 2 else - 1 / (1 - x) ^ 2)
              (zip (data y) (data link_f))"
  have agree: "shapes_agree link_f y"
    using assms(1) by (rule shapes_agree_same)
  have len: "length (data y) = length (data link_f)"
    using assms(1-3) by (simp add: wf_array_def)
  have a: "ufunc (st\<lparr>divide := Ignore\<rparr>) (np_div (- 1)) (map (\<lambda>x. x ^ 2) (data link_f))
      = Inr (map (\<lambda>x. Fin (- 1 / x ^ 2)) (data link_f))"
    using assms(4) by (intro ufunc_np_div_map) auto
  have b: "ufunc (st\<lparr>divide := Ignore\<rparr>) (np_div (- 1)) (map (\<lambda>x. (1 - x) ^ 2) (data link_f))
      = Inr (map (\<lambda>x. Fin (- 1 / (1 - x) ^ 2)) (data link_f))"
    using assms(4) by (intro ufunc_np_div_map) auto
  have val: "d2logpdf_dlink2 st link_f y = (st, Inr \<lparr>shape = shape y, data = map Fin ?h\<rparr>)"
    using agree
    by (simp add: d2logpdf_dlink2_def seterr_divide_def seterr_all_def a b np_where_same
        same_shape_broadcast [OF assms(1)] split_def if_distrib comp_def)
  have neg: "\<forall>i<length ?h. ?h ! i < 0
          \<and> ?h ! i = (if data y ! i \<noteq> 0 then - 1 / (data link_f ! i) ^ 2
                     else - 1 / (1 - data link_f ! i) ^ 2)"
  proof (intro allI impI)
    fix i assume "i < length ?h"
    then have i: "i < length (data link_f)" "i < length (data y)"
      using len by simp_all
    then have "0 < data link_f ! i \<and> data link_f ! i < 1"
      using assms(4) by simp
    then show "?h ! i < 0
          \<and> ?h ! i = (if data y ! i \<noteq> 0 then - 1 / (data link_f ! i) ^ 2
                     else - 1 / (1 - data link_f ! i) ^ 2)"
      using i by simp
  qed
  have "length ?h = length (data link_f)"
    using len by simp
  with val neg show ?thesis by blast
qed

theorem d2logpdf_dlink2_negative_witness:
  "\<exists>h. d2logpdf_dlink2 default_errstate \<lparr>shape = [2], data = [1 / 4, 1 / 2]\<rparr>
          \<lparr>shape = [2], data = [1, 0]\<rparr>
        = (default_errstate, Inr \<lparr>shape = shape \<lparr>shape = [2], data = [1, 0 :: real]\<rparr>,
             data = map Fin h\<rparr>)
     \<and> length h = length (data \<lparr>shape = [2], data = [1 / 4, 1 / 2 :: real]\<rparr>)
     \<and> (\<forall>i<length h. h ! i < 0
          \<and> h ! i = (if data \<lparr>shape = [2], data = [1, 0 :: real]\<rparr> ! i \<noteq> 0
                     then - 1 / (data \<lparr>shape = [2], data = [1 / 4, 1 / 2 :: real]\<rparr> ! i) ^ 2
                     else - 1 / (1 - data \<lparr>shape = [2], data = [1 / 4, 1 / 2 :: real]\<rparr> ! i) ^ 2))"
  by (rule d2logpdf_dlink2_negative) (simp_all add: wf_array_def)

subsection \<open>The shape assertion\<close>

lemma shapes_agree_iff:
  "shapes_agree a b \<longleftrightarrow>
     shape a = shape b \<or> (shape a = [] \<and> shape b = [1]) \<or> (shape a = [1] \<and> shape b = [])"
  by (auto simp add: shapes_agree_def atleast_1d_shape_def)

text \<open>
  C8, as stated, fails. A scalar \<open>link_f\<close> (shape \<open>[]\<close>) and a \<open>y\<close> of shape \<open>[1]\<close> have
  different shapes, yet \<^verbatim>\<open>np.atleast_1d\<close> makes the assertion pass and all five methods
  return, the elementwise ones with the scalar stretched to the shape \<open>[1]\<close>.
\<close>

theorem scalar_against_one_element_array_passes:
  "shape \<lparr>shape = [], data = [1 / 4 :: real]\<rparr> \<noteq> shape \<lparr>shape = [1], data = [1 :: real]\<rparr>
   \<and> pdf_link default_errstate \<lparr>shape = [], data = [1 / 4]\<rparr> \<lparr>shape = [1], data = [1]\<rparr>
       = (default_errstate, Inr (Fin (1 / 4)))
   \<and> logpdf_link default_errstate \<lparr>shape = [], data = [1 / 4]\<rparr> \<lparr>shape = [1], data = [1]\<rparr>
       = (default_errstate, Inr (Fin (ln (1 / 4))))
   \<and> dlogpdf_dlink default_errstate \<lparr>shape = [], data = [1 / 4]\<rparr> \<lparr>shape = [1], data = [1]\<rparr>
       = (default_errstate, Inr \<lparr>shape = [1], data = [Fin 4]\<rparr>)
   \<and> d2logpdf_dlink2 default_errstate \<lparr>shape = [], data = [1 / 4]\<rparr> \<lparr>shape = [1], data = [1]\<rparr>
       = (default_errstate, Inr \<lparr>shape = [1], data = [Fin (- 16)]\<rparr>)
   \<and> d3logpdf_dlink3 default_errstate \<lparr>shape = [], data = [1 / 4]\<rparr> \<lparr>shape = [1], data = [1]\<rparr>
       = (default_errstate, Inr \<lparr>shape = [1], data = [Fin 128]\<rparr>)"
  by (simp add: pdf_link_def logpdf_link_def dlogpdf_dlink_def d2logpdf_dlink2_def
      d3logpdf_dlink3_def shapes_agree_def atleast_1d_shape_def np_where_def ufunc_def
      np_log_def np_div_def seterr_divide_def seterr_all_def np_sum_def broadcast_shape_def
      default_errstate_def power2_eq_square power3_eq_cube)

text \<open>
  C8, amended. Whenever the shapes of \<open>link_f\<close> and \<open>y\<close> still differ after a scalar is
  promoted to a one-element array, each of the five methods fails its assertion, computes
  nothing and leaves the error settings as they were.
\<close>

theorem shape_mismatch_fails_assertion:
  "\<not> shapes_agree link_f y \<Longrightarrow>
     pdf_link st link_f y = (st, Inl (AssertionError []))
   \<and> logpdf_link st link_f y = (st, Inl (AssertionError []))
   \<and> dlogpdf_dlink st link_f y = (st, Inl (AssertionError []))
   \<and> d2logpdf_dlink2 st link_f y = (st, Inl (AssertionError []))
   \<and> d3logpdf_dlink3 st link_f y = (st, Inl (AssertionError []))"
  by (simp add: pdf_link_def logpdf_link_def dlogpdf_dlink_def d2logpdf_dlink2_def
      d3logpdf_dlink3_def)

theorem shape_mismatch_fails_assertion_witness:
  "\<not> shapes_agree \<lparr>shape = [2], data = [1 / 4, 1 / 2 :: real]\<rparr>
        \<lparr>shape = [3], data = [1, 0, 1 :: real]\<rparr>
   \<and> pdf_link default_errstate \<lparr>shape = [2], data = [1 / 4, 1 / 2]\<rparr>
        \<lparr>shape = [3], data = [1, 0, 1]\<rparr>
       = (default_errstate, Inl (AssertionError []))
   \<and> d3logpdf_dlink3 default_errstate \<lparr>shape = [2], data = [1 / 4, 1 / 2]\<rparr>
        \<lparr>shape = [3], data = [1, 0, 1]\<rparr>
       = (default_errstate, Inl (AssertionError []))"
  using shape_mismatch_fails_assertion
    [of "\<lparr>shape = [2], data = [1 / 4, 1 / 2]\<rparr>" "\<lparr>shape = [3], data = [1, 0, 1]\<rparr>" default_errstate]
  by (simp add: shapes_agree_def atleast_1d_shape_def)

subsection \<open>The scope of the suppressed division warning\<close>

text \<open>
  Inside the scope a division by zero never raises, whatever the caller's settings: in
  exact arithmetic the three derivatives always return once the assertion has passed.
\<close>

lemma ufunc_np_div_ignore:
  "c \<noteq> 0 \<Longrightarrow> divide st = Ignore \<Longrightarrow> \<exists>r. ufunc st (np_div c) xs = Inr r"
  by (auto simp add: ufunc_def list_ex_iff np_div_def)

lemma derivatives_return:
  assumes "shapes_agree link_f y"
  shows "\<exists>g. dlogpdf_dlink st link_f y = (st, Inr g)"
    and "\<exists>g. d2logpdf_dlink2 st link_f y = (st, Inr g)"
    and "\<exists>g. d3logpdf_dlink3 st link_f y = (st, Inr g)"
proof -
  have ign: "divide (st\<lparr>divide := Ignore\<rparr>) = Ignore" by simp
  obtain a b where "ufunc (st\<lparr>divide := Ignore\<rparr>) (np_div 1) (data link_f) = Inr a"
    "ufunc (st\<lparr>divide := Ignore\<rparr>) (np_div (- 1)) (map (\<lambda>x. 1 - x) (data link_f)) = Inr b"
    using ufunc_np_div_ignore [OF _ ign, of 1] ufunc_np_div_ignore [OF _ ign, of "- 1"]
    by (metis one_neq_zero neg_equal_0_iff_equal)
  then show "\<exists>g. dlogpdf_dlink st link_f y = (st, Inr g)"
    using assms by (simp add: dlogpdf_dlink_def seterr_divide_def seterr_all_def)
  obtain a b where
    "ufunc (st\<lparr>divide := Ignore\<rparr>) (np_div (- 1)) (map (\<lambda>x. x ^ 2) (data link_f)) = Inr a"
    "ufunc (st\<lparr>divide := Ignore\<rparr>) (np_div (- 1)) (map (\<lambda>x. (1 - x) ^ 2) (data link_f)) = Inr b"
    using ufunc_np_div_ignore [OF _ ign, of "- 1"]
    by (metis one_neq_zero neg_equal_0_iff_equal)
  then show "\<exists>g. d2logpdf_dlink2 st link_f y = (st, Inr g)"
    using assms by (simp add: d2logpdf_dlink2_def seterr_divide_def seterr_all_def)
  obtain a b where
    "ufunc (st\<lparr>divide := Ignore\<rparr>) (np_div 2) (map (\<lambda>x. x ^ 3) (data link_f)) = Inr a"
    "ufunc (st\<lparr>divide := Ignore\<rparr>) (np_div (- 2)) (map (\<lambda>x. (1 - x) ^ 3) (data link_f)) = Inr b"
    using ufunc_np_div_ignore [OF _ ign, of 2] ufunc_np_div_ignore [OF _ ign, of "- 2"]
    by (metis zero_neq_numeral neg_equal_0_iff_equal)
  then show "\<exists>g. d3logpdf_dlink3 st link_f y = (st, Inr g)"
    using assms by (simp add: d3logpdf_dlink3_def seterr_divide_def seterr_all_def)
qed



subsection \<open>Label preprocessing\<close>









end
